theory Spec2Isabelle
  imports Complex_Main
begin

section \<open>The example module: data model\<close>

text \<open>
  The module \<^verbatim>\<open>example.py\<close> defines a dataclass \<^verbatim>\<open>User\<close> and three functions,
  \<^verbatim>\<open>calculate_discount\<close>, \<^verbatim>\<open>validate_email\<close> and \<^verbatim>\<open>process_user_data\<close>.
  Each is embedded below as a HOL function computing the same result.

  Conventions of the embedding:
  \<^item> a finite Python \<^verbatim>\<open>float\<close> is a \<^typ>\<open>real\<close>, and arithmetic is exact: rounding is
    not modelled. \<open>calculate_discount\<close> is given on reals, and again on floats with
    their infinities and NaN (\<open>calculate_discount_float\<close>);
  \<^item> a Python \<^verbatim>\<open>int\<close> is an \<^typ>\<open>int\<close>;
  \<^item> a Python \<^verbatim>\<open>str\<close> is a \<^typ>\<open>string\<close>, one \<^typ>\<open>char\<close> per code point below 256;
  \<^item> every \<^verbatim>\<open>raise\<close> is an \<open>Inl\<close> result. The exceptions the module raises itself
    are \<^verbatim>\<open>ValueError\<close>s that differ in their message; the model has one constructor
    per message form, and one for each exception a builtin operation can raise.
\<close>

datatype error =
    PriceNegative
      \<comment> \<open>\<^verbatim>\<open>ValueError("Price cannot be negative")\<close>\<close>
  | DiscountPercentRange
      \<comment> \<open>\<^verbatim>\<open>ValueError("Discount percent must be between 0 and 100")\<close>\<close>
  | MissingRequiredField string
      \<comment> \<open>\<^verbatim>\<open>ValueError(f"Missing required field: {field}")\<close>\<close>
  | InvalidEmailFormat string
      \<comment> \<open>\<^verbatim>\<open>ValueError(f"Invalid email format: {email}")\<close>\<close>
  | InvalidIntLiteral string
      \<comment> \<open>the \<^verbatim>\<open>ValueError\<close> of the builtin \<^verbatim>\<open>int\<close> on a string that is no integer literal\<close>
  | UnpackError
      \<comment> \<open>the \<^verbatim>\<open>ValueError\<close> of a tuple assignment whose right side has the wrong length\<close>
  | KeyError string
      \<comment> \<open>subscript of a dict at an absent key\<close>

text \<open>The error classes of the specification, as sets of the exceptions above.\<close>

definition is_InvalidArgument :: "error \<Rightarrow> bool" where
  "is_InvalidArgument e = (e = PriceNegative \<or> e = DiscountPercentRange)"

definition is_MissingField :: "error \<Rightarrow> bool" where
  "is_MissingField e = (case e of MissingRequiredField f \<Rightarrow> True | _ \<Rightarrow> False)"

definition is_InvalidEmail :: "error \<Rightarrow> bool" where
  "is_InvalidEmail e = (case e of InvalidEmailFormat s \<Rightarrow> True | _ \<Rightarrow> False)"

text \<open>Sequencing: an exception of the first computation ends the whole one.\<close>

definition bind_err :: "error + 'a \<Rightarrow> ('a \<Rightarrow> error + 'b) \<Rightarrow> error + 'b" where
  "bind_err m f = (case m of Inl e \<Rightarrow> Inl e | Inr x \<Rightarrow> f x)"

record User =
  id_field :: int
  name :: string
  email :: string
  active :: bool

text \<open>The values an input dictionary holds: \<^verbatim>\<open>str\<close>, \<^verbatim>\<open>int\<close> and \<^verbatim>\<open>bool\<close>.\<close>

datatype pyval = PStr string | PInt int | PBool bool

type_synonym pydict = "string \<rightharpoonup> pyval"

section \<open>Builtins the module calls\<close>

subsection \<open>\<^verbatim>\<open>str\<close>\<close>

definition digit_char :: "nat \<Rightarrow> char" where
  "digit_char d = char_of (48 + d)"

fun str_of_nat :: "nat \<Rightarrow> string" where
  "str_of_nat n = (if n < 10 then [digit_char n] else str_of_nat (n div 10) @ [digit_char (n mod 10)])"

definition str_of_int :: "int \<Rightarrow> string" where
  "str_of_int i = (if i < 0 then CHR ''-'' # str_of_nat (nat (- i)) else str_of_nat (nat i))"

fun py_str :: "pyval \<Rightarrow> string" where
  "py_str (PStr s) = s"
| "py_str (PInt i) = str_of_int i"
| "py_str (PBool b) = (if b then ''True'' else ''False'')"

subsection \<open>\<^verbatim>\<open>bool\<close>\<close>

fun py_bool :: "pyval \<Rightarrow> bool" where
  "py_bool (PStr s) = (s \<noteq> [])"
| "py_bool (PInt i) = (i \<noteq> 0)"
| "py_bool (PBool b) = b"

subsection \<open>\<^verbatim>\<open>int\<close>\<close>

text \<open>
  \<^verbatim>\<open>int(s)\<close> on a string, base 10: surrounding whitespace (tab, line feed, vertical
  tab, form feed, carriage return, space, and the code points 133 and 160; the separators
  28 to 31 are not dropped) is dropped, one sign is
  allowed, and the rest is a non-empty run of decimal digits in which single underscores
  may stand between two digits. Anything else raises \<^verbatim>\<open>ValueError\<close>. The interpreter's
  limit on the number of digits of a conversion is not modelled.
\<close>

definition is_space :: "char \<Rightarrow> bool" where
  "is_space c = (let n = (of_char c :: nat) in
     (9 \<le> n \<and> n \<le> 13) \<or> n = 32 \<or> n = 133 \<or> n = 160)"

definition is_digit :: "char \<Rightarrow> bool" where
  "is_digit c = (let n = (of_char c :: nat) in 48 \<le> n \<and> n \<le> 57)"

definition digit_val :: "char \<Rightarrow> nat" where
  "digit_val c = of_char c - 48"

definition strip :: "string \<Rightarrow> string" where
  "strip s = rev (dropWhile is_space (rev (dropWhile is_space s)))"

fun parse_digits :: "nat \<Rightarrow> string \<Rightarrow> nat option" where
  "parse_digits acc [] = Some acc"
| "parse_digits acc [c] = (if is_digit c then Some (acc * 10 + digit_val c) else None)"
| "parse_digits acc (c # d # cs) =
     (if is_digit c then parse_digits (acc * 10 + digit_val c) (d # cs)
      else if c = CHR ''_'' \<and> is_digit d then parse_digits (acc * 10 + digit_val d) cs
      else None)"

definition parse_nat :: "string \<Rightarrow> nat option" where
  "parse_nat s = (case s of [] \<Rightarrow> None
     | c # cs \<Rightarrow> if is_digit c then parse_digits (digit_val c) cs else None)"

definition int_of_str :: "string \<Rightarrow> error + int" where
  "int_of_str s =
     (let t = strip s;
          r = (case t of [] \<Rightarrow> None
               | c # cs \<Rightarrow>
                   if c = CHR ''-'' then map_option (\<lambda>n. - int n) (parse_nat cs)
                   else if c = CHR ''+'' then map_option int (parse_nat cs)
                   else map_option int (parse_nat t))
      in case r of None \<Rightarrow> Inl (InvalidIntLiteral s) | Some i \<Rightarrow> Inr i)"

fun py_int :: "pyval \<Rightarrow> error + int" where
  "py_int (PStr s) = int_of_str s"
| "py_int (PInt i) = Inr i"
| "py_int (PBool b) = Inr (if b then 1 else 0)"

subsection \<open>\<^verbatim>\<open>str.split\<close> on a one-character separator\<close>

text \<open>
  \<^verbatim>\<open>s.split(sep)\<close> cuts \<open>s\<close> at every occurrence of the separator and keeps empty
  pieces: \<^verbatim>\<open>"a@@b".split("@") == ["a", "", "b"]\<close> and \<^verbatim>\<open>"".split("@") == [""]\<close>.
  \<open>cur\<close> holds the piece being read, reversed.
\<close>

fun split_acc :: "char \<Rightarrow> string \<Rightarrow> string \<Rightarrow> string list" where
  "split_acc sep cur [] = [rev cur]"
| "split_acc sep cur (c # cs) =
     (if c = sep then rev cur # split_acc sep [] cs else split_acc sep (c # cur) cs)"

definition split_str :: "char \<Rightarrow> string \<Rightarrow> string list" where
  "split_str sep s = split_acc sep [] s"

subsection \<open>Dictionary subscript\<close>

definition getitem :: "pydict \<Rightarrow> string \<Rightarrow> error + pyval" where
  "getitem d k = (case d k of None \<Rightarrow> Inl (KeyError k) | Some v \<Rightarrow> Inr v)"

section \<open>The functions of the module\<close>

subsection \<open>\<^verbatim>\<open>User.get_display_name\<close>\<close>

text \<open>
  The method returns the f-string \<^verbatim>\<open>f"{self.name} ({self.email})"\<close>. The model
  returns the string together with the object after the call.
\<close>

definition get_display_name :: "User \<Rightarrow> string \<times> User" where
  "get_display_name self = (concat [name self, '' ('', email self, '')''], self)"

subsection \<open>\<^verbatim>\<open>calculate_discount\<close>\<close>

definition calculate_discount :: "real \<Rightarrow> real \<Rightarrow> real option \<Rightarrow> error + real" where
  "calculate_discount price discount_percent max_discount =
     (if price < 0 then Inl PriceNegative
      else if \<not> (0 \<le> discount_percent \<and> discount_percent \<le> 100) then Inl DiscountPercentRange
      else
        let discount_amount = price * (discount_percent / 100);
            discount_amount = (case max_discount of
                                 None \<Rightarrow> discount_amount
                               | Some m \<Rightarrow> min discount_amount m)
        in Inr (price - discount_amount))"

subsection \<open>\<^verbatim>\<open>calculate_discount\<close> on floats with infinities and NaN\<close>

text \<open>
  A float is a finite number, an infinity or NaN. Every comparison with NaN is false;
  \<open>inf * 0\<close> and \<open>inf - inf\<close> are NaN. Arithmetic on finite numbers is exact, and the
  two zeros, which no comparison tells apart, are one. The builtin \<^verbatim>\<open>min(a, b)\<close>
  returns \<open>b\<close> when \<open>b < a\<close> and \<open>a\<close> otherwise.
\<close>

datatype pyfloat = Finite real | PosInf | NegInf | NaN

fun f_less :: "pyfloat \<Rightarrow> pyfloat \<Rightarrow> bool" where
  "f_less (Finite x) (Finite y) = (x < y)"
| "f_less (Finite x) PosInf = True"
| "f_less NegInf (Finite y) = True"
| "f_less NegInf PosInf = True"
| "f_less a b = False"

fun f_le :: "pyfloat \<Rightarrow> pyfloat \<Rightarrow> bool" where
  "f_le (Finite x) (Finite y) = (x \<le> y)"
| "f_le (Finite x) PosInf = True"
| "f_le NegInf (Finite y) = True"
| "f_le NegInf PosInf = True"
| "f_le PosInf PosInf = True"
| "f_le NegInf NegInf = True"
| "f_le a b = False"

text \<open>The product of an infinity (positive when \<open>pos\<close>) and a finite number.\<close>

definition inf_times :: "bool \<Rightarrow> real \<Rightarrow> pyfloat" where
  "inf_times pos y =
     (if y = 0 then NaN else if (0 < y) = pos then PosInf else NegInf)"

fun f_mul :: "pyfloat \<Rightarrow> pyfloat \<Rightarrow> pyfloat" where
  "f_mul (Finite x) (Finite y) = Finite (x * y)"
| "f_mul NaN b = NaN"
| "f_mul a NaN = NaN"
| "f_mul PosInf (Finite y) = inf_times True y"
| "f_mul NegInf (Finite y) = inf_times False y"
| "f_mul (Finite x) PosInf = inf_times True x"
| "f_mul (Finite x) NegInf = inf_times False x"
| "f_mul PosInf PosInf = PosInf"
| "f_mul NegInf NegInf = PosInf"
| "f_mul PosInf NegInf = NegInf"
| "f_mul NegInf PosInf = NegInf"

fun f_sub :: "pyfloat \<Rightarrow> pyfloat \<Rightarrow> pyfloat" where
  "f_sub (Finite x) (Finite y) = Finite (x - y)"
| "f_sub NaN b = NaN"
| "f_sub a NaN = NaN"
| "f_sub PosInf PosInf = NaN"
| "f_sub NegInf NegInf = NaN"
| "f_sub PosInf b = PosInf"
| "f_sub NegInf b = NegInf"
| "f_sub (Finite x) PosInf = NegInf"
| "f_sub (Finite x) NegInf = PosInf"

text \<open>Division by the constant \<open>100\<close>.\<close>

fun f_div100 :: "pyfloat \<Rightarrow> pyfloat" where
  "f_div100 (Finite x) = Finite (x / 100)"
| "f_div100 a = a"

definition py_min :: "pyfloat \<Rightarrow> pyfloat \<Rightarrow> pyfloat" where
  "py_min a b = (if f_less b a then b else a)"

definition calculate_discount_float ::
  "pyfloat \<Rightarrow> pyfloat \<Rightarrow> pyfloat option \<Rightarrow> error + pyfloat" where
  "calculate_discount_float price discount_percent max_discount =
     (if f_less price (Finite 0) then Inl PriceNegative
      else if \<not> (f_le (Finite 0) discount_percent \<and> f_le discount_percent (Finite 100))
      then Inl DiscountPercentRange
      else
        let discount_amount = f_mul price (f_div100 discount_percent);
            discount_amount = (case max_discount of
                                 None \<Rightarrow> discount_amount
                               | Some m \<Rightarrow> py_min discount_amount m)
        in Inr (f_sub price discount_amount))"

subsection \<open>\<^verbatim>\<open>validate_email\<close>\<close>

text \<open>
  The tuple assignment \<^verbatim>\<open>local, domain = parts\<close> raises when \<open>parts\<close> does not have
  two elements; that branch is part of the model.
\<close>

definition validate_email :: "string \<Rightarrow> error + bool" where
  "validate_email email_str =
     (if email_str = [] \<or> CHR ''@'' \<notin> set email_str then Inr False
      else
        let parts = split_str CHR ''@'' email_str in
        if length parts \<noteq> 2 then Inr False
        else (case parts of
                [local, domain] \<Rightarrow> Inr (length local > 0 \<and> CHR ''.'' \<in> set domain)
              | _ \<Rightarrow> Inl UnpackError))"

subsection \<open>\<^verbatim>\<open>process_user_data\<close>\<close>

definition required_fields :: "string list" where
  "required_fields = [''id'', ''name'', ''email'']"

text \<open>The loop over the required fields: the first absent one raises.\<close>

fun check_required :: "string list \<Rightarrow> pydict \<Rightarrow> error + unit" where
  "check_required [] user_data = Inr ()"
| "check_required (field # rest) user_data =
     (if user_data field = None then Inl (MissingRequiredField field)
      else check_required rest user_data)"

text \<open>
  The arguments of the constructor call are evaluated from left to right:
  \<^verbatim>\<open>int(user_data["id"])\<close>, \<^verbatim>\<open>str(user_data["name"])\<close>, then
  \<^verbatim>\<open>bool(user_data.get("active", True))\<close>.
\<close>

definition process_user_data :: "pydict \<Rightarrow> error + User" where
  "process_user_data user_data =
     bind_err (check_required required_fields user_data) (\<lambda>_.
     bind_err (getitem user_data ''email'') (\<lambda>ev.
     let email_str = py_str ev in
     bind_err (validate_email email_str) (\<lambda>ok.
     if \<not> ok then Inl (InvalidEmailFormat email_str)
     else
       bind_err (getitem user_data ''id'') (\<lambda>iv.
       bind_err (py_int iv) (\<lambda>i.
       bind_err (getitem user_data ''name'') (\<lambda>nv.
       Inr \<lparr>id_field = i, name = py_str nv, email = email_str,
            active = py_bool (case user_data ''active'' of
                                None \<Rightarrow> PBool True
                              | Some v \<Rightarrow> v)\<rparr>))))))"

text \<open>
  An input that has all three required keys and a well-shaped email, and whose
  \<^verbatim>\<open>id\<close> is the string \<^verbatim>\<open>"abc"\<close>.
\<close>

definition abc_id_data :: pydict where
  "abc_id_data =
     [''id'' \<mapsto> PStr ''abc'', ''name'' \<mapsto> PStr ''Bob'', ''email'' \<mapsto> PStr ''bob@example.com'']"

section \<open>Facts about the builtins\<close>

lemma bind_err_simps: "bind_err (Inl e) f = Inl e" "bind_err (Inr x) f = f x"
  by (simp_all add: bind_err_def)

lemma bind_err_Inr_iff: "bind_err m f = Inr y \<longleftrightarrow> (\<exists>x. m = Inr x \<and> f x = Inr y)"
  by (cases m) (simp_all add: bind_err_def)

lemma getitem_Inr_iff: "getitem d k = Inr v \<longleftrightarrow> d k = Some v"
  by (simp add: getitem_def split: option.splits)

lemma str_of_nat_not_Nil: "str_of_nat n \<noteq> []"
  by (subst str_of_nat.simps) simp

lemma str_of_int_not_Nil: "str_of_int i \<noteq> []"
  by (simp add: str_of_int_def str_of_nat_not_Nil)

lemma py_str_Nil_iff: "py_str v = [] \<longleftrightarrow> v = PStr []"
  by (cases v) (simp_all add: str_of_int_not_Nil)

text \<open>
  What \<open>split_str\<close> returns, independently of the accumulator: there is always at least
  one piece, there is one piece more than separators, and the result has exactly two
  pieces when the string is \<open>l\<close>, one separator, \<open>d\<close>, with no separator in \<open>l\<close> or \<open>d\<close>.
\<close>

lemma split_acc_not_Nil: "split_acc sep cur s \<noteq> []"
  by (induction s arbitrary: cur) auto

lemma split_acc_single:
  "split_acc sep cur s = [x] \<longleftrightarrow> sep \<notin> set s \<and> x = rev cur @ s"
  by (induction s arbitrary: cur) (auto simp: split_acc_not_Nil)

lemma split_acc_pair:
  "split_acc sep cur s = [l, d] \<longleftrightarrow>
     (\<exists>p. l = rev cur @ p \<and> s = p @ sep # d \<and> sep \<notin> set p \<and> sep \<notin> set d)"
proof (induction s arbitrary: cur)
  case Nil
  then show ?case by simp
next
  case (Cons c cs)
  show ?case
  proof (cases "c = sep")
    case True
    then show ?thesis
      by (auto simp: split_acc_single Cons_eq_append_conv)
  next
    case False
    then show ?thesis
      using Cons.IH [of "c # cur"]
      by (auto simp: Cons_eq_append_conv)
  qed
qed

lemma split_str_pair:
  "split_str sep s = [l, d] \<longleftrightarrow> s = l @ sep # d \<and> sep \<notin> set l \<and> sep \<notin> set d"
  by (auto simp: split_str_def split_acc_pair)

lemma length_split_acc: "length (split_acc sep cur s) = Suc (count_list s sep)"
  by (induction s arbitrary: cur) auto

lemma length_split_str: "length (split_str sep s) = Suc (count_list s sep)"
  by (simp add: split_str_def length_split_acc)

section \<open>Facts about the functions of the module\<close>

lemma check_required_find:
  "check_required fs d =
     (case find (\<lambda>f. d f = None) fs of
        None \<Rightarrow> Inr ()
      | Some f \<Rightarrow> Inl (MissingRequiredField f))"
  by (induction fs) auto

lemma check_required_Inr_iff: "check_required fs d = Inr () \<longleftrightarrow> (\<forall>f\<in>set fs. d f \<noteq> None)"
  by (induction fs) auto

lemma validate_email_split:
  "validate_email s =
     Inr (CHR ''@'' \<in> set s \<and>
          (\<exists>l d. split_str CHR ''@'' s = [l, d] \<and> l \<noteq> [] \<and> CHR ''.'' \<in> set d))"
  by (auto simp: validate_email_def Let_def split: list.splits)

lemma check_required_all:
  "check_required required_fields d = Inr () \<longleftrightarrow>
     d ''id'' \<noteq> None \<and> d ''name'' \<noteq> None \<and> d ''email'' \<noteq> None"
  by (simp add: required_fields_def)

text \<open>With the three required keys present, the run reaches the email check.\<close>

lemma process_user_data_present:
  assumes "d ''id'' = Some iv" "d ''name'' = Some nv" "d ''email'' = Some ev"
  shows "process_user_data d =
     (case validate_email (py_str ev) of
        Inl e \<Rightarrow> Inl e
      | Inr ok \<Rightarrow>
          if \<not> ok then Inl (InvalidEmailFormat (py_str ev))
          else (case py_int iv of
                  Inl e \<Rightarrow> Inl e
                | Inr i \<Rightarrow>
                    Inr \<lparr>id_field = i, name = py_str nv, email = py_str ev,
                         active = py_bool (case d ''active'' of
                                             None \<Rightarrow> PBool True
                                           | Some v \<Rightarrow> v)\<rparr>))"
proof -
  have "check_required required_fields d = Inr ()"
    using assms by (simp add: check_required_all)
  then show ?thesis
    using assms
    by (simp add: process_user_data_def bind_err_def getitem_def Let_def split: sum.splits)
qed

lemma process_user_data_absent:
  assumes "d ''id'' = None \<or> d ''name'' = None \<or> d ''email'' = None"
  shows "\<exists>f. process_user_data d = Inl (MissingRequiredField f)"
proof -
  have "\<exists>f. check_required required_fields d = Inl (MissingRequiredField f)"
    using assms by (auto simp: required_fields_def)
  then show ?thesis
    by (auto simp: process_user_data_def bind_err_simps)
qed

text \<open>The successful runs of \<open>process_user_data\<close>, and the record each returns.\<close>

lemma process_user_data_Inr_iff:
  "process_user_data d = Inr u \<longleftrightarrow>
     (\<exists>iv nv ev i.
        d ''id'' = Some iv \<and> d ''name'' = Some nv \<and> d ''email'' = Some ev \<and>
        validate_email (py_str ev) = Inr True \<and> py_int iv = Inr i \<and>
        u = \<lparr>id_field = i, name = py_str nv, email = py_str ev,
             active = py_bool (case d ''active'' of None \<Rightarrow> PBool True | Some v \<Rightarrow> v)\<rparr>)"
proof (cases "d ''id'' = None \<or> d ''name'' = None \<or> d ''email'' = None")
  case True
  then show ?thesis
    using process_user_data_absent [OF True] by auto
next
  case False
  then obtain iv nv ev where "d ''id'' = Some iv" "d ''name'' = Some nv" "d ''email'' = Some ev"
    by auto
  then show ?thesis
    by (auto simp: process_user_data_present split: sum.splits if_splits)
qed

text \<open>Evaluation rules for concrete inputs.\<close>

lemmas eval_defs =
  process_user_data_def required_fields_def bind_err_simps getitem_def validate_email_split
  split_str_def int_of_str_def strip_def is_space_def parse_nat_def is_digit_def digit_val_def
  str_of_int_def digit_char_def

section \<open>The discount calculator\<close>

text \<open>
  On finite numbers the two embeddings of \<open>calculate_discount\<close> agree.
\<close>

lemma calculate_discount_float_Finite:
  "calculate_discount_float (Finite price) (Finite discount_percent) (map_option Finite max_discount)
     = map_sum id Finite (calculate_discount price discount_percent max_discount)"
  by (cases max_discount)
    (auto simp: calculate_discount_float_def calculate_discount_def py_min_def min_def Let_def)

text \<open>
  Claim C1, as amended. For every finite \<open>price \<ge> 0\<close> and \<open>0 \<le> discount_percent \<le> 100\<close>,
  \<open>calculate_discount\<close> returns a value, and that value is at least \<open>0\<close> whatever
  \<open>max_discount\<close> is (finite, infinite or NaN); it is at most \<open>price\<close> when
  \<open>max_discount\<close> is omitted or \<open>max_discount \<ge> 0\<close>.
\<close>

theorem calculate_discount_range:
  assumes "0 \<le> price" and "0 \<le> discount_percent" and "discount_percent \<le> 100"
  shows "\<exists>r. calculate_discount_float (Finite price) (Finite discount_percent) max_discount = Inr r \<and>
           f_le (Finite 0) r \<and>
           ((case max_discount of None \<Rightarrow> True | Some m \<Rightarrow> f_le (Finite 0) m)
              \<longrightarrow> f_le r (Finite price))"
proof -
  have le: "price * (discount_percent / 100) \<le> price"
    using assms mult_left_le [of "discount_percent / 100" price] by simp
  have ge: "0 \<le> price * (discount_percent / 100)"
    using assms by simp
  show ?thesis
  proof (cases max_discount)
    case None
    then show ?thesis
      using assms le ge by (simp add: calculate_discount_float_def)
  next
    case (Some m)
    then show ?thesis
      using assms le ge
      by (cases m) (auto simp: calculate_discount_float_def py_min_def Let_def)
  qed
qed

theorem calculate_discount_range_witness:
  "\<exists>r. calculate_discount_float (Finite 100) (Finite 50) (Some (Finite 30)) = Inr r \<and>
       f_le (Finite 0) r \<and> f_le r (Finite 100)"
  using calculate_discount_range [of 100 50 "Some (Finite 30)"] by simp

text \<open>
  Claim C1 as stated, for every \<open>price \<ge> 0\<close> and every value of \<open>max_discount\<close>, fails
  twice. At a negative cap, \<^verbatim>\<open>calculate_discount(100, 50, max_discount=-10)\<close> is
  \<open>110\<close>, above the price: the function never looks at the sign of \<open>max_discount\<close>.
  At an infinite price, which passes the check \<^verbatim>\<open>price < 0\<close>,
  \<^verbatim>\<open>calculate_discount(float("inf"), 50)\<close> is \<open>inf - inf\<close>, that is NaN, which is
  neither at least \<open>0\<close> nor at most the price.
\<close>

theorem calculate_discount_negative_cap:
  "f_le (Finite 0) (Finite 100) \<and> f_le (Finite 0) (Finite 50) \<and> f_le (Finite 50) (Finite 100) \<and>
   calculate_discount_float (Finite 100) (Finite 50) (Some (Finite (- 10))) = Inr (Finite 110) \<and>
   \<not> f_le (Finite 110) (Finite 100) \<and>
   f_le (Finite 0) PosInf \<and>
   calculate_discount_float PosInf (Finite 50) None = Inr NaN \<and>
   \<not> f_le (Finite 0) NaN \<and> \<not> f_le NaN PosInf"
  by (simp add: calculate_discount_float_def py_min_def inf_times_def)

text \<open>
  Claim C5. \<open>calculate_discount\<close> raises exactly when \<open>price < 0\<close> or
  \<open>discount_percent\<close> is outside \<open>[0, 100]\<close>, and every exception it raises is one
  of the two argument errors; a negative price is reported first, also when the
  percentage is out of range as well.
\<close>

theorem calculate_discount_fails_iff:
  "((\<exists>e. calculate_discount price discount_percent max_discount = Inl e \<and> is_InvalidArgument e)
      \<longleftrightarrow> (price < 0 \<or> discount_percent < 0 \<or> 100 < discount_percent)) \<and>
   (\<forall>e. calculate_discount price discount_percent max_discount = Inl e \<longrightarrow> is_InvalidArgument e) \<and>
   (price < 0 \<longrightarrow> calculate_discount price discount_percent max_discount = Inl PriceNegative) \<and>
   (0 \<le> price \<and> (discount_percent < 0 \<or> 100 < discount_percent) \<longrightarrow>
      calculate_discount price discount_percent max_discount = Inl DiscountPercentRange)"
  by (auto simp: calculate_discount_def is_InvalidArgument_def Let_def)

theorem calculate_discount_fails_iff_witness:
  "calculate_discount (- 10) 150 None = Inl PriceNegative \<and>
   calculate_discount 100 150 None = Inl DiscountPercentRange \<and>
   (\<exists>e. calculate_discount (- 10) 20 None = Inl e \<and> is_InvalidArgument e)"
  using calculate_discount_fails_iff [of "- 10" 150 None]
    calculate_discount_fails_iff [of 100 150 None]
    calculate_discount_fails_iff [of "- 10" 20 None]
  by simp

text \<open>
  Claim C6. On a valid input with a cap \<open>m\<close> the result is
  \<open>price - min (price * (discount_percent / 100)) m\<close>, and without a cap it is
  \<open>price - price * (discount_percent / 100)\<close>; so
  \<^verbatim>\<open>calculate_discount(100, 50, 30) == 70\<close> and \<^verbatim>\<open>calculate_discount(100, 20) == 80\<close>.
\<close>

theorem calculate_discount_value:
  "(0 \<le> price \<and> 0 \<le> discount_percent \<and> discount_percent \<le> 100 \<longrightarrow>
      calculate_discount price discount_percent (Some m)
        = Inr (price - min (price * (discount_percent / 100)) m) \<and>
      calculate_discount price discount_percent None
        = Inr (price - price * (discount_percent / 100))) \<and>
   calculate_discount 100 50 (Some 30) = Inr 70 \<and>
   calculate_discount 100 20 None = Inr 80"
  by (simp add: calculate_discount_def)

theorem calculate_discount_value_witness:
  "calculate_discount 200 25 (Some 10) = Inr 190 \<and> calculate_discount 200 25 None = Inr 150"
  using calculate_discount_value [of 200 25 10] by simp

section \<open>The email shape check\<close>

text \<open>
  Claim C3. \<open>validate_email\<close> never raises, and returns true exactly when the string
  contains \<open>@\<close>, splitting it at \<open>@\<close> gives exactly two parts, the first part is not
  empty and the second contains a dot. On the empty string it returns false.
\<close>

theorem validate_email_iff:
  "validate_email email_str =
     Inr (CHR ''@'' \<in> set email_str \<and>
          (\<exists>local domain. split_str CHR ''@'' email_str = [local, domain] \<and>
                          local \<noteq> [] \<and> CHR ''.'' \<in> set domain)) \<and>
   validate_email [] = Inr False"
  by (simp add: validate_email_split)

theorem validate_email_iff_witness:
  "validate_email ''user@example.com'' = Inr True \<and>
   validate_email ''user@@example.com'' = Inr False \<and>
   validate_email ''invalid-email'' = Inr False"
  using validate_email_iff [of "''user@example.com''"] validate_email_iff [of "''user@@example.com''"]
    validate_email_iff [of "''invalid-email''"]
  by (simp add: split_str_def)

section \<open>Building a user from a dictionary\<close>

text \<open>
  Claim C2, as amended. On every input on which \<open>process_user_data\<close> succeeds, the
  \<open>name\<close> of the returned record is \<^verbatim>\<open>str\<close> of the input's \<^verbatim>\<open>name\<close> value; it is
  empty exactly when that value is the empty string.
\<close>

theorem process_user_data_name:
  assumes "process_user_data user_data = Inr u"
  shows "\<exists>nv. user_data ''name'' = Some nv \<and> name u = py_str nv \<and>
           (name u = [] \<longleftrightarrow> nv = PStr [])"
  using assms by (auto simp: process_user_data_Inr_iff py_str_Nil_iff)

theorem process_user_data_name_witness:
  "\<exists>nv. [''id'' \<mapsto> PInt 1, ''name'' \<mapsto> PStr ''Bob'', ''email'' \<mapsto> PStr ''bob@example.com''] ''name''
           = Some nv \<and>
        name \<lparr>id_field = 1, name = ''Bob'', email = ''bob@example.com'', active = True\<rparr> = py_str nv \<and>
        (name \<lparr>id_field = 1, name = ''Bob'', email = ''bob@example.com'', active = True\<rparr> = []
           \<longleftrightarrow> nv = PStr [])"
proof -
  have "process_user_data
          [''id'' \<mapsto> PInt 1, ''name'' \<mapsto> PStr ''Bob'', ''email'' \<mapsto> PStr ''bob@example.com'']
        = Inr \<lparr>id_field = 1, name = ''Bob'', email = ''bob@example.com'', active = True\<rparr>"
    by (simp add: eval_defs)
  then show ?thesis
    by (rule process_user_data_name)
qed

text \<open>
  Claim C2 as stated fails: the function does not look at the name, and an input whose
  name is the empty string gives a record with an empty name.
\<close>

theorem process_user_data_empty_name:
  "process_user_data [''id'' \<mapsto> PInt 1, ''name'' \<mapsto> PStr [], ''email'' \<mapsto> PStr ''bob@example.com'']
     = Inr \<lparr>id_field = 1, name = [], email = ''bob@example.com'', active = True\<rparr>"
  by (simp add: eval_defs)

text \<open>
  Claim C4. When at least one of the required keys \<^verbatim>\<open>id\<close>, \<^verbatim>\<open>name\<close>,
  \<^verbatim>\<open>email\<close> is absent, \<open>process_user_data\<close> raises the missing-field error for the
  first absent key in that order, whatever the email is: the presence check runs before
  the email check.
\<close>

theorem process_user_data_missing_field:
  assumes "user_data ''id'' = None \<or> user_data ''name'' = None \<or> user_data ''email'' = None"
  shows "process_user_data user_data =
     Inl (MissingRequiredField
            (if user_data ''id'' = None then ''id''
             else if user_data ''name'' = None then ''name''
             else ''email''))"
  using assms
  by (auto simp: process_user_data_def required_fields_def bind_err_simps)

theorem process_user_data_missing_field_witness:
  "process_user_data [''name'' \<mapsto> PStr ''Alice'', ''email'' \<mapsto> PStr ''invalid-email'']
     = Inl (MissingRequiredField ''id'') \<and>
   process_user_data [''id'' \<mapsto> PInt 1, ''email'' \<mapsto> PStr ''alice@example.com'']
     = Inl (MissingRequiredField ''name'') \<and>
   process_user_data [''id'' \<mapsto> PInt 1, ''name'' \<mapsto> PStr ''Alice'']
     = Inl (MissingRequiredField ''email'')"
  using process_user_data_missing_field
      [of "[''name'' \<mapsto> PStr ''Alice'', ''email'' \<mapsto> PStr ''invalid-email'']"]
    process_user_data_missing_field
      [of "[''id'' \<mapsto> PInt 1, ''email'' \<mapsto> PStr ''alice@example.com'']"]
    process_user_data_missing_field
      [of "[''id'' \<mapsto> PInt 1, ''name'' \<mapsto> PStr ''Alice'']"]
  by simp

text \<open>
  Claim C7, as amended. The email of every record that \<open>process_user_data\<close> returns
  passes \<open>validate_email\<close>; and when the required keys \<^verbatim>\<open>id\<close>, \<^verbatim>\<open>name\<close> and
  \<^verbatim>\<open>email\<close> are all present and \<open>validate_email\<close> of the coerced email is false,
  the call raises the invalid-email error carrying the coerced email.
\<close>

theorem process_user_data_email:
  "(process_user_data user_data = Inr u \<longrightarrow> validate_email (email u) = Inr True) \<and>
   (user_data ''id'' \<noteq> None \<and> user_data ''name'' \<noteq> None \<and> user_data ''email'' = Some ev \<and>
    validate_email (py_str ev) = Inr False \<longrightarrow>
      process_user_data user_data = Inl (InvalidEmailFormat (py_str ev)))"
  by (auto simp: process_user_data_Inr_iff process_user_data_present)

theorem process_user_data_email_witness:
  "validate_email
     (email \<lparr>id_field = 1, name = ''Bob'', email = ''bob@example.com'', active = True\<rparr>) = Inr True \<and>
   process_user_data
     [''id'' \<mapsto> PStr ''abc'', ''name'' \<mapsto> PStr ''Alice'', ''email'' \<mapsto> PStr ''invalid-email'']
     = Inl (InvalidEmailFormat ''invalid-email'')"
proof -
  have ok: "process_user_data
          [''id'' \<mapsto> PInt 1, ''name'' \<mapsto> PStr ''Bob'', ''email'' \<mapsto> PStr ''bob@example.com'']
        = Inr \<lparr>id_field = 1, name = ''Bob'', email = ''bob@example.com'', active = True\<rparr>"
    by (simp add: eval_defs)
  have bad: "validate_email (py_str (PStr ''invalid-email'')) = Inr False"
    by (simp add: validate_email_split)
  have a: "validate_email
     (email \<lparr>id_field = 1, name = ''Bob'', email = ''bob@example.com'', active = True\<rparr>) = Inr True"
    using process_user_data_email ok by blast
  have b: "process_user_data
     [''id'' \<mapsto> PStr ''abc'', ''name'' \<mapsto> PStr ''Alice'', ''email'' \<mapsto> PStr ''invalid-email'']
     = Inl (InvalidEmailFormat (py_str (PStr ''invalid-email'')))"
    using process_user_data_email
      [of "[''id'' \<mapsto> PStr ''abc'', ''name'' \<mapsto> PStr ''Alice'', ''email'' \<mapsto> PStr ''invalid-email'']"
          _ "PStr ''invalid-email''"] bad
    by simp
  show ?thesis
    using a b by simp
qed

text \<open>
  Claim C7 as stated, whenever the check of the coerced email is false, fails when a
  required key is absent: the presence check comes first, and an input without
  \<^verbatim>\<open>id\<close> whose email is \<^verbatim>\<open>"invalid-email"\<close> raises the missing-field error.
\<close>

theorem process_user_data_email_missing_id:
  "validate_email (py_str (PStr ''invalid-email'')) = Inr False \<and>
   process_user_data [''name'' \<mapsto> PStr ''Alice'', ''email'' \<mapsto> PStr ''invalid-email'']
     = Inl (MissingRequiredField ''id'') \<and>
   MissingRequiredField ''id'' \<noteq> InvalidEmailFormat ''invalid-email''"
  by (simp add: eval_defs)

text \<open>
  Claim C8. On every input on which \<open>process_user_data\<close> succeeds, the \<open>active\<close> field
  of the record is true when the input has no \<^verbatim>\<open>active\<close> key, and is \<^verbatim>\<open>bool\<close> of
  the \<^verbatim>\<open>active\<close> value otherwise.
\<close>

theorem process_user_data_active:
  assumes "process_user_data user_data = Inr u"
  shows "active u = (case user_data ''active'' of None \<Rightarrow> True | Some v \<Rightarrow> py_bool v)"
  using assms by (auto simp: process_user_data_Inr_iff split: option.splits)

theorem process_user_data_active_witness:
  "active \<lparr>id_field = 1, name = ''Bob'', email = ''bob@example.com'', active = True\<rparr>
     = (case [''id'' \<mapsto> PInt 1, ''name'' \<mapsto> PStr ''Bob'', ''email'' \<mapsto> PStr ''bob@example.com''] ''active''
        of None \<Rightarrow> True | Some v \<Rightarrow> py_bool v) \<and>
   active \<lparr>id_field = 1, name = ''Bob'', email = ''bob@example.com'', active = False\<rparr>
     = (case [''id'' \<mapsto> PInt 1, ''name'' \<mapsto> PStr ''Bob'', ''email'' \<mapsto> PStr ''bob@example.com'',
              ''active'' \<mapsto> PInt 0] ''active''
        of None \<Rightarrow> True | Some v \<Rightarrow> py_bool v)"
proof -
  have absent: "process_user_data
          [''id'' \<mapsto> PInt 1, ''name'' \<mapsto> PStr ''Bob'', ''email'' \<mapsto> PStr ''bob@example.com'']
        = Inr \<lparr>id_field = 1, name = ''Bob'', email = ''bob@example.com'', active = True\<rparr>"
    by (simp add: eval_defs)
  have present: "process_user_data
          [''id'' \<mapsto> PInt 1, ''name'' \<mapsto> PStr ''Bob'', ''email'' \<mapsto> PStr ''bob@example.com'',
           ''active'' \<mapsto> PInt 0]
        = Inr \<lparr>id_field = 1, name = ''Bob'', email = ''bob@example.com'', active = False\<rparr>"
    by (simp add: eval_defs)
  show ?thesis
    by (rule conjI [OF process_user_data_active [OF absent] process_user_data_active [OF present]])
qed

text \<open>
  Claim C9. There is an input with the three required keys and a well-shaped email on
  which \<open>process_user_data\<close> raises an exception that is no missing-field, invalid-email
  or invalid-argument error: with \<^verbatim>\<open>id = "abc"\<close> the conversion \<^verbatim>\<open>int("abc")\<close>
  raises.
\<close>

theorem process_user_data_int_error:
  "abc_id_data ''id'' = Some (PStr ''abc'') \<and>
   abc_id_data ''name'' = Some (PStr ''Bob'') \<and>
   abc_id_data ''email'' = Some (PStr ''bob@example.com'') \<and>
   validate_email (py_str (PStr ''bob@example.com'')) = Inr True \<and>
   process_user_data abc_id_data = Inl (InvalidIntLiteral ''abc'') \<and>
   \<not> is_MissingField (InvalidIntLiteral ''abc'') \<and>
   \<not> is_InvalidEmail (InvalidIntLiteral ''abc'') \<and>
   \<not> is_InvalidArgument (InvalidIntLiteral ''abc'')"
  by (simp add: abc_id_data_def eval_defs is_MissingField_def is_InvalidEmail_def
      is_InvalidArgument_def)

section \<open>The display name\<close>

text \<open>
  Claim C10. \<open>get_display_name\<close> returns the name, a space, an opening parenthesis, the
  email and a closing parenthesis, and leaves the record as it was.
\<close>

theorem get_display_name_eq:
  "get_display_name u = (name u @ '' ('' @ email u @ '')'', u)"
  by (simp add: get_display_name_def)

theorem get_display_name_eq_witness:
  "get_display_name \<lparr>id_field = 1, name = ''Alice Smith'', email = ''alice@example.com'', active = True\<rparr>
     = (''Alice Smith (alice@example.com)'',
        \<lparr>id_field = 1, name = ''Alice Smith'', email = ''alice@example.com'', active = True\<rparr>)"
  using get_display_name_eq
    [of "\<lparr>id_field = 1, name = ''Alice Smith'', email = ''alice@example.com'', active = True\<rparr>"]
  by simp

end
